theory Spec2Isabelle
  imports Main
begin

section \<open>The chat widget of chat-system.js\<close>

text \<open>
  The class \<open>ChatSystem\<close> is embedded as functions on a record that holds the fields of
  one instance together with the part of the browser the methods touch: the elements
  the constructor looked up, the interval timers, the requests in flight, the error
  notices shown, the clock.  JavaScript runs the methods one at a time and an
  \<open>async\<close> method gives up control only at an \<open>await\<close>, so every method is cut at its
  awaits: the part that runs when the method is called, and the part that runs when the
  awaited response arrives.  A thrown \<open>TypeError\<close> that no \<open>catch\<close> of the class
  handles is counted in \<open>uncaught\<close>; the statements after the throwing one do not run.
\<close>

subsection \<open>Strings\<close>

text \<open>
  A string is the list of its code units; \<open>char\<close> holds the code units up to 255.
  \<open>String.prototype.trim\<close> strips white space and line terminators from both ends; the
  ones a \<open>char\<close> can hold are TAB, LF, VT, FF, CR, SP and NBSP.
\<close>

definition is_whitespace :: "char \<Rightarrow> bool" where
  "is_whitespace c =
     (c = CHR 0x09 \<or> c = CHR 0x0A \<or> c = CHR 0x0B \<or> c = CHR 0x0C \<or> c = CHR 0x0D \<or>
      c = CHR 0x20 \<or> c = CHR 0xA0)"

definition trim :: "string \<Rightarrow> string" where
  "trim s = rev (dropWhile is_whitespace (rev (dropWhile is_whitespace s)))"

text \<open>The decimal numeral a template literal prints for an integer.\<close>

fun digits :: "nat \<Rightarrow> string" where
  "digits n =
     (if n < 10 then [''0123456789'' ! n]
      else digits (n div 10) @ [''0123456789'' ! (n mod 10)])"

declare digits.simps [simp del]

definition string_of_int :: "int \<Rightarrow> string" where
  "string_of_int i = (if i < 0 then CHR ''-'' # digits (nat (- i)) else digits (nat i))"

text \<open>A line break of a template literal followed by its indentation.\<close>

definition indent :: "nat \<Rightarrow> string" where
  "indent n = CHR 0x0A # replicate n CHR '' ''"

subsection \<open>escapeHtml\<close>

text \<open>
  \<open>escapeHtml\<close> assigns the text to \<open>textContent\<close> of a fresh \<open>div\<close> and reads
  \<open>innerHTML\<close> back.  The browser serialises the single text node by the HTML
  standard's rule for escaping a string outside attribute mode: \<open>&\<close>, NBSP, \<open><\<close> and
  \<open>>\<close> become character references, every other code unit is kept.
\<close>

definition escape_char :: "char \<Rightarrow> string" where
  "escape_char c =
     (if c = CHR ''&'' then ''&amp;''
      else if c = CHR 0xA0 then ''&nbsp;''
      else if c = CHR ''<'' then ''&lt;''
      else if c = CHR ''>'' then ''&gt;''
      else [c])"

definition escapeHtml :: "string \<Rightarrow> string" where
  "escapeHtml text = concat (map escape_char text)"

subsection \<open>formatTime\<close>

text \<open>
  Dates are milliseconds since the epoch.  \<open>now\<close> is what \<open>new Date()\<close> gives and
  \<open>toLocaleDateString\<close> is the locale's rendering of a date, both supplied by the
  browser.  \<open>Math.floor\<close> of a quotient is \<open>div\<close> on \<open>int\<close>, which rounds down.
\<close>

definition formatTime :: "(int \<Rightarrow> string) \<Rightarrow> int \<Rightarrow> int \<Rightarrow> string" where
  "formatTime toLocaleDateString now date =
     (let diffMs = now - date;
          diffMins = diffMs div 60000
      in if diffMins < 1 then ''Just now''
         else if diffMins < 60 then string_of_int diffMins @ ''m ago''
         else let diffHours = diffMins div 60
              in if diffHours < 24 then string_of_int diffHours @ ''h ago''
                 else toLocaleDateString date)"

subsection \<open>The instance and its environment\<close>

record user =
  user_id :: nat

record message =
  sender_id :: nat
  sender_name :: string
  message_text :: string
  sent_at :: int

record options =
  apiUrl :: string
  pollInterval :: nat
  maxMessageLength :: nat

text \<open>The \<open>options\<close> argument of the constructor: \<open>None\<close> is a key that is not given.\<close>

record options_arg =
  apiUrl_arg :: "string option"
  pollInterval_arg :: "nat option"
  maxMessageLength_arg :: "nat option"

text \<open>
  The text input: its \<open>value\<close>, its \<open>disabled\<close> flag and whether it has the focus.
\<close>

record input_el =
  input_value :: string
  input_disabled :: bool
  input_focused :: bool

text \<open>
  The host document as the constructor finds it: \<open>None\<close> is an element that
  \<open>getElementById\<close> or \<open>querySelector\<close> did not find.
\<close>

record host_document =
  modal_el :: "string option"
  messages_el :: "string option"
  input_el :: "input_el option"
  send_el :: "bool option"
  title_el :: "string option"

datatype request = GET_messages "nat option" | POST_messages "nat option" string

text \<open>
  Who awaits a \<open>loadMessages\<close> in flight, and so what runs once it returns: the rest
  of \<open>open\<close>, nothing (a timer tick, a call from the page), or the \<open>finally\<close> block of
  \<open>sendMessage\<close>.
\<close>

datatype caller = FromOpen | FromTick | FromSend | FromPage

datatype task = Loading caller | Sending

text \<open>
  What comes back for a request: the promise of \<open>fetch\<close> rejects, or there is a response
  with its \<open>ok\<close> flag and a body.  The body is not JSON or not an object
  (\<open>NotAnObject\<close>: \<open>response.json()\<close> rejects or \<open>data.messages\<close> throws), an object
  whose \<open>messages\<close> is missing, \<open>null\<close> or otherwise falsy (\<open>NoMessages\<close>), or an
  object with an array of messages.
\<close>

datatype body = NotAnObject | NoMessages | Messages "message list"

datatype response = NetworkError | Http bool body

record chat =
  modal :: "string option"
  offerId :: "nat option"
  currentUser :: "user option"
  messages :: "message list"
  pollingInterval :: "nat option"
  options :: options
  messagesContainer :: "string option"
  messageInput :: "input_el option"
  sendButton :: "bool option"
  chatTitle :: "string option"
  clock :: int
  localeDate :: "int \<Rightarrow> string"
  timers :: "nat list"
  next_timer :: nat
  inflight :: "(nat \<times> request \<times> task) list"
  next_request :: nat
  requests :: "request list"
  notices :: "string list"
  uncaught :: nat

text \<open>
  \<open>modal\<close> is the \<open>style.display\<close> of the modal, \<open>messagesContainer\<close> the markup last
  assigned to \<open>innerHTML\<close>, \<open>sendButton\<close> the \<open>disabled\<close> flag of the button and
  \<open>chatTitle\<close> its \<open>textContent\<close>.  \<open>timers\<close> are the handles of the interval timers
  that are running, \<open>inflight\<close> the requests sent and not yet answered, each with the
  suspended method that awaits it, \<open>requests\<close> every request sent so far and \<open>notices\<close>
  every notice \<open>showError\<close> has put on the page.
\<close>

subsection \<open>The constructor\<close>

definition or_default :: "nat option \<Rightarrow> nat \<Rightarrow> nat" where
  "or_default v d = (case v of None \<Rightarrow> d | Some n \<Rightarrow> if n = 0 then d else n)"

definition or_default_string :: "string option \<Rightarrow> string \<Rightarrow> string" where
  "or_default_string v d = (case v of None \<Rightarrow> d | Some x \<Rightarrow> if x = [] then d else x)"

definition spread :: "'a option \<Rightarrow> 'a \<Rightarrow> 'a" where
  "spread v current = (case v of None \<Rightarrow> current | Some x \<Rightarrow> x)"

definition make_options :: "options_arg \<Rightarrow> options" where
  "make_options arg =
     \<lparr> apiUrl = spread (apiUrl_arg arg)
                 (or_default_string (apiUrl_arg arg) ''http://localhost:3000/api''),
       pollInterval = spread (pollInterval_arg arg) (or_default (pollInterval_arg arg) 3000),
       maxMessageLength =
         spread (maxMessageLength_arg arg) (or_default (maxMessageLength_arg arg) 1000) \<rparr>"

text \<open>
  \<open>initializeElements\<close> looks the elements up inside the modal, and returns before
  that when there is no modal.  The browser hands out timer handles from 1.
\<close>

definition constructor :: "host_document \<Rightarrow> (int \<Rightarrow> string) \<Rightarrow> options_arg \<Rightarrow> chat" where
  "constructor doc locale arg =
     (let found = (modal_el doc \<noteq> None) in
      \<lparr> modal = modal_el doc,
        offerId = None,
        currentUser = None,
        messages = [],
        pollingInterval = None,
        options = make_options arg,
        messagesContainer = (if found then messages_el doc else None),
        messageInput = (if found then input_el doc else None),
        sendButton = (if found then send_el doc else None),
        chatTitle = (if found then title_el doc else None),
        clock = 0,
        localeDate = locale,
        timers = [],
        next_timer = 1,
        inflight = [],
        next_request = 0,
        requests = [],
        notices = [],
        uncaught = 0 \<rparr>)"

subsection \<open>showError, startPolling, stopPolling\<close>

definition showError :: "string \<Rightarrow> chat \<Rightarrow> chat" where
  "showError message s = s\<lparr>notices := notices s @ [message]\<rparr>"

definition throw :: "chat \<Rightarrow> chat" where
  "throw s = s\<lparr>uncaught := Suc (uncaught s)\<rparr>"

text \<open>
  \<open>setInterval\<close> returns a handle greater than zero, so the test
  \<open>if (this.pollingInterval)\<close> is the test that the field is not \<open>null\<close>.
\<close>

definition stopPolling :: "chat \<Rightarrow> chat" where
  "stopPolling s =
     (case pollingInterval s of
        None \<Rightarrow> s
      | Some h \<Rightarrow> s\<lparr>timers := removeAll h (timers s), pollingInterval := None\<rparr>)"

definition startPolling :: "chat \<Rightarrow> chat" where
  "startPolling s =
     (let s1 = stopPolling s;
          h = next_timer s1
      in s1\<lparr>timers := timers s1 @ [h], next_timer := Suc h, pollingInterval := Some h\<rparr>)"

subsection \<open>renderMessages\<close>

definition empty_markup :: string where
  \<open>empty_markup =
     indent 16 @ ''<div class="chat-empty">'' @
     indent 20 @ ''<i class="fas fa-comments"></i>'' @
     indent 20 @ ''<p>No messages yet. Start the conversation!</p>'' @
     indent 16 @ ''</div>'' @
     indent 12\<close>

definition message_markup :: "string \<Rightarrow> string \<Rightarrow> string \<Rightarrow> string \<Rightarrow> string" where
  \<open>message_markup messageClass sender time content =
     indent 16 @ ''<div class="chat-message '' @ messageClass @ ''">'' @
     indent 20 @ ''<div class="chat-message-header">'' @
     indent 24 @ ''<span class="chat-message-sender">'' @ sender @ ''</span>'' @
     indent 24 @ ''<span class="chat-message-time">'' @ time @ ''</span>'' @
     indent 20 @ ''</div>'' @
     indent 20 @ ''<div class="chat-message-content">'' @
     indent 24 @ content @
     indent 20 @ ''</div>'' @
     indent 16 @ ''</div>'' @
     indent 12\<close>

definition renderMessage :: "(int \<Rightarrow> string) \<Rightarrow> int \<Rightarrow> user \<Rightarrow> message \<Rightarrow> string" where
  "renderMessage locale now u msg =
     (let isCurrentUser = (sender_id msg = user_id u);
          messageClass = (if isCurrentUser then ''chat-message-sent''
                          else ''chat-message-received'')
      in message_markup messageClass (escapeHtml (sender_name msg))
           (formatTime locale now (sent_at msg)) (message_text msg))"

text \<open>
  \<open>None\<close> is the \<open>TypeError\<close> of reading \<open>this.currentUser.id\<close> when there is no
  current user; it is thrown inside \<open>map\<close>, before \<open>innerHTML\<close> is assigned.  The
  scroll position is not modelled.
\<close>

definition renderMessages :: "chat \<Rightarrow> chat option" where
  "renderMessages s =
     (case messagesContainer s of
        None \<Rightarrow> Some s
      | Some _ \<Rightarrow>
          if length (messages s) = 0 then Some (s\<lparr>messagesContainer := Some empty_markup\<rparr>)
          else (case currentUser s of
                  None \<Rightarrow> None
                | Some u \<Rightarrow>
                    Some (s\<lparr>messagesContainer :=
                      Some (concat (map (renderMessage (localeDate s) (clock s) u)
                                        (messages s)))\<rparr>)))"

subsection \<open>loadMessages\<close>

definition fetch :: "request \<Rightarrow> task \<Rightarrow> chat \<Rightarrow> chat" where
  "fetch req t s =
     s\<lparr>inflight := inflight s @ [(next_request s, req, t)],
       next_request := Suc (next_request s),
       requests := requests s @ [req]\<rparr>"

text \<open>Up to the first \<open>await\<close>: the request is sent, for the offer open at that moment.\<close>

definition loadMessages_call :: "caller \<Rightarrow> chat \<Rightarrow> chat" where
  "loadMessages_call c s = fetch (GET_messages (offerId s)) (Loading c) s"

definition load_failed :: "chat \<Rightarrow> chat" where
  "load_failed s = showError ''Failed to load messages. Please try again.'' s"

text \<open>From the first \<open>await\<close> to the end, \<open>catch\<close> block included.\<close>

definition loadMessages_resume :: "response \<Rightarrow> chat \<Rightarrow> chat" where
  "loadMessages_resume r s =
     (case r of
        NetworkError \<Rightarrow> load_failed s
      | Http ok b \<Rightarrow>
          if \<not> ok then load_failed s
          else (case b of
                  NotAnObject \<Rightarrow> load_failed s
                | _ \<Rightarrow>
                    (let s1 = s\<lparr>messages := (case b of Messages ms \<Rightarrow> ms | _ \<Rightarrow> [])\<rparr>
                     in case renderMessages s1 of
                          None \<Rightarrow> load_failed s1
                        | Some s2 \<Rightarrow> s2)))"

subsection \<open>open, close, destroy\<close>

definition focus :: "input_el \<Rightarrow> input_el" where
  "focus i = (if input_disabled i then i else i\<lparr>input_focused := True\<rparr>)"

text \<open>
  \<open>open\<close> up to its \<open>await\<close>.  The title defaults to \<open>Chat\<close>.  Without a modal,
  \<open>this.modal.style\<close> throws after the two fields are set, and no request is sent.
\<close>

definition open_call :: "nat \<Rightarrow> user option \<Rightarrow> string option \<Rightarrow> chat \<Rightarrow> chat" where
  "open_call oid u title s =
     (let s1 = s\<lparr>offerId := Some oid, currentUser := u\<rparr>;
          s2 = (case chatTitle s1 of
                  None \<Rightarrow> s1
                | Some _ \<Rightarrow> s1\<lparr>chatTitle := Some (case title of None \<Rightarrow> ''Chat'' | Some t \<Rightarrow> t)\<rparr>)
      in case modal s2 of
           None \<Rightarrow> throw s2
         | Some _ \<Rightarrow> loadMessages_call FromOpen (s2\<lparr>modal := Some ''flex''\<rparr>))"

text \<open>\<open>open\<close> after \<open>loadMessages\<close> has returned.\<close>

definition open_resume :: "chat \<Rightarrow> chat" where
  "open_resume s =
     (let s1 = startPolling s
      in case messageInput s1 of
           None \<Rightarrow> s1
         | Some i \<Rightarrow> s1\<lparr>messageInput := Some (focus i)\<rparr>)"

definition close :: "chat \<Rightarrow> chat" where
  "close s =
     (case modal s of
        None \<Rightarrow> throw s
      | Some _ \<Rightarrow>
          (let s1 = stopPolling (s\<lparr>modal := Some ''none''\<rparr>);
               s2 = s1\<lparr>offerId := None\<rparr>
           in case messageInput s2 of
                None \<Rightarrow> s2
              | Some i \<Rightarrow> s2\<lparr>messageInput := Some (i\<lparr>input_value := []\<rparr>)\<rparr>))"

definition destroy :: "chat \<Rightarrow> chat" where
  "destroy s = close (stopPolling s)"

subsection \<open>sendMessage\<close>

text \<open>
  An element that becomes disabled loses the focus.  The two assignments to
  \<open>disabled\<close> stand before the \<open>try\<close>, so a missing button throws out of the method
  with the input already disabled.
\<close>

definition disable :: "input_el \<Rightarrow> input_el" where
  "disable i = i\<lparr>input_disabled := True, input_focused := False\<rparr>"

definition too_long :: "nat \<Rightarrow> string" where
  "too_long n = ''Message is too long. Maximum '' @ digits n @ '' characters.''"

definition sendMessage_call :: "chat \<Rightarrow> chat" where
  "sendMessage_call s =
     (case messageInput s of
        None \<Rightarrow> throw s
      | Some i \<Rightarrow>
          (let messageText = trim (input_value i)
           in if messageText = [] then s
              else if length messageText > maxMessageLength (options s)
              then showError (too_long (maxMessageLength (options s))) s
              else (let s1 = s\<lparr>messageInput := Some (disable i)\<rparr>
                    in case sendButton s1 of
                         None \<Rightarrow> throw s1
                       | Some _ \<Rightarrow>
                           fetch (POST_messages (offerId s1) messageText) Sending
                             (s1\<lparr>sendButton := Some True\<rparr>))))"

text \<open>The \<open>finally\<close> block.\<close>

definition sendMessage_finally :: "chat \<Rightarrow> chat" where
  "sendMessage_finally s =
     (case messageInput s of
        None \<Rightarrow> throw s
      | Some i \<Rightarrow>
          (let i1 = i\<lparr>input_disabled := False\<rparr>;
               s1 = s\<lparr>messageInput := Some i1\<rparr>
           in case sendButton s1 of
                None \<Rightarrow> throw s1
              | Some _ \<Rightarrow> s1\<lparr>sendButton := Some False, messageInput := Some (focus i1)\<rparr>))"

definition send_failed :: "chat \<Rightarrow> chat" where
  "send_failed s =
     sendMessage_finally (showError ''Failed to send message. Please try again.'' s)"

text \<open>
  From the answer to the POST up to the \<open>await\<close> of \<open>loadMessages\<close>, or, when the
  send failed, through \<open>catch\<close> and \<open>finally\<close> to the end.  The body of the answer is
  not read.
\<close>

definition sendMessage_resume :: "response \<Rightarrow> chat \<Rightarrow> chat" where
  "sendMessage_resume r s =
     (case r of
        NetworkError \<Rightarrow> send_failed s
      | Http ok b \<Rightarrow>
          if \<not> ok then send_failed s
          else (case messageInput s of
                  None \<Rightarrow> send_failed s
                | Some i \<Rightarrow>
                    loadMessages_call FromSend
                      (s\<lparr>messageInput := Some (i\<lparr>input_value := []\<rparr>)\<rparr>)))"

subsection \<open>The event loop\<close>

text \<open>
  One event is one run of the widget's code to its next \<open>await\<close> or to its end: a call
  of a method by the page or by a listener (the listeners of \<open>setupEventListeners\<close>
  call \<open>sendMessage\<close> and \<open>close\<close>), a tick of a running timer, the answer to a request in
  flight.  The user edits the input between events, and the clock advances.
\<close>

datatype event =
    Open nat "user option" "string option"
  | Close
  | Destroy
  | SendMessage
  | LoadMessages
  | StartPolling
  | StopPolling
  | Tick nat
  | Answer nat response
  | Edit string
  | Clock int

definition after_load :: "caller \<Rightarrow> chat \<Rightarrow> chat" where
  "after_load c s =
     (case c of
        FromOpen \<Rightarrow> open_resume s
      | FromTick \<Rightarrow> s
      | FromSend \<Rightarrow> sendMessage_finally s
      | FromPage \<Rightarrow> s)"

definition resume :: "task \<Rightarrow> response \<Rightarrow> chat \<Rightarrow> chat" where
  "resume t r s =
     (case t of
        Loading c \<Rightarrow> after_load c (loadMessages_resume r s)
      | Sending \<Rightarrow> sendMessage_resume r s)"

definition edit :: "string \<Rightarrow> chat \<Rightarrow> chat" where
  "edit text s =
     (case messageInput s of
        None \<Rightarrow> s
      | Some i \<Rightarrow> if input_disabled i then s
                  else s\<lparr>messageInput := Some (i\<lparr>input_value := text\<rparr>)\<rparr>)"

definition step :: "event \<Rightarrow> chat \<Rightarrow> chat" where
  "step e s =
     (case e of
        Open oid u title \<Rightarrow> open_call oid u title s
      | Close \<Rightarrow> close s
      | Destroy \<Rightarrow> destroy s
      | SendMessage \<Rightarrow> sendMessage_call s
      | LoadMessages \<Rightarrow> loadMessages_call FromPage s
      | StartPolling \<Rightarrow> startPolling s
      | StopPolling \<Rightarrow> stopPolling s
      | Tick h \<Rightarrow> if h \<in> set (timers s) then loadMessages_call FromTick s else s
      | Answer n r \<Rightarrow>
          (case map_of (inflight s) n of
             None \<Rightarrow> s
           | Some (req, t) \<Rightarrow>
               resume t r (s\<lparr>inflight := filter (\<lambda>p. fst p \<noteq> n) (inflight s)\<rparr>))
      | Edit text \<Rightarrow> edit text s
      | Clock t \<Rightarrow> s\<lparr>clock := t\<rparr>)"

definition run :: "event list \<Rightarrow> chat \<Rightarrow> chat" where
  "run es s = foldl (\<lambda>s e. step e s) s es"

subsection \<open>Notions the properties are stated with\<close>

text \<open>
  The running timers are the one \<open>pollingInterval\<close> refers to, or none when it is
  \<open>null\<close>, and the handle is one the browser has already handed out.
\<close>

definition timer_tracked :: "chat \<Rightarrow> bool" where
  "timer_tracked s =
     (timers s = (case pollingInterval s of None \<Rightarrow> [] | Some h \<Rightarrow> [h]) \<and>
      (case pollingInterval s of None \<Rightarrow> True | Some h \<Rightarrow> h < next_timer s))"

definition same_timers :: "chat \<Rightarrow> chat \<Rightarrow> bool" where
  "same_timers s s' =
     (timers s' = timers s \<and> pollingInterval s' = pollingInterval s \<and>
      next_timer s' = next_timer s)"

text \<open>
  Inside an element, the parser leaves character data for a tag, a comment or any other
  markup only at a \<open><\<close>.  \<open>tag_opens\<close> counts them.
\<close>

definition tag_opens :: "string \<Rightarrow> nat" where
  "tag_opens s = length (filter (\<lambda>c. c = CHR ''<'') s)"

text \<open>
  Reading character data back: the parser replaces the character references that
  \<open>escapeHtml\<close> writes by the characters they stand for, and keeps every other
  character.
\<close>

fun unescape :: "string \<Rightarrow> string" where
  "unescape [] = []"
| "unescape (c # cs) =
     (if c = CHR ''&'' \<and> take 4 cs = ''amp;'' then CHR ''&'' # unescape (drop 4 cs)
      else if c = CHR ''&'' \<and> take 5 cs = ''nbsp;'' then CHR 0xA0 # unescape (drop 5 cs)
      else if c = CHR ''&'' \<and> take 3 cs = ''lt;'' then CHR ''<'' # unescape (drop 3 cs)
      else if c = CHR ''&'' \<and> take 3 cs = ''gt;'' then CHR ''>'' # unescape (drop 3 cs)
      else c # unescape cs)"

subsection \<open>A page, a widget on it and some messages\<close>

definition page :: host_document where
  "page =
     \<lparr> modal_el = Some [],
       messages_el = Some [],
       input_el = Some \<lparr> input_value = [], input_disabled = False, input_focused = False \<rparr>,
       send_el = Some False,
       title_el = Some [] \<rparr>"

definition defaults :: options_arg where
  "defaults = \<lparr> apiUrl_arg = None, pollInterval_arg = None, maxMessageLength_arg = None \<rparr>"

definition widget :: chat where
  "widget = constructor page (\<lambda>_. ''12/15/2025'') defaults"

definition alice :: user where
  "alice = \<lparr> user_id = 1 \<rparr>"

definition greeting :: message where
  "greeting = \<lparr> sender_id = 2, sender_name = ''Bob'', message_text = ''Hello'', sent_at = 0 \<rparr>"

definition script_message :: message where
  "script_message =
     \<lparr> sender_id = 2, sender_name = ''<b>Bob</b>'',
       message_text = ''<script>alert(1)</script>'', sent_at = 0 \<rparr>"

definition old_message :: message where
  "old_message =
     \<lparr> sender_id = 2, sender_name = ''Bob'', message_text = ''About offer 1'', sent_at = 0 \<rparr>"

text \<open>A widget configured with a maximum of three characters.\<close>

definition short_widget :: chat where
  "short_widget =
     constructor page (\<lambda>_. ''12/15/2025'')
       \<lparr> apiUrl_arg = None, pollInterval_arg = None, maxMessageLength_arg = Some 3 \<rparr>"

lemmas eval_defs =
  run_def step_def widget_def page_def defaults_def alice_def constructor_def make_options_def
  or_default_def or_default_string_def spread_def open_call_def open_resume_def close_def
  destroy_def startPolling_def stopPolling_def loadMessages_call_def loadMessages_resume_def
  load_failed_def fetch_def showError_def throw_def renderMessages_def resume_def
  after_load_def focus_def disable_def sendMessage_call_def sendMessage_resume_def
  sendMessage_finally_def send_failed_def edit_def Let_def

section \<open>Relative time labels\<close>

lemma int_div_less_iff: "0 < c \<Longrightarrow> a div c < k \<longleftrightarrow> a < k * (c::int)"
proof -
  assume c: "0 < c"
  have "(a + (- k) * c) div c = a div c + (- k)"
    using c by (subst div_mult_self1) auto
  then have "a div c < k \<longleftrightarrow> (a - k * c) div c < 0" by simp
  also have "\<dots> \<longleftrightarrow> a - k * c < 0" using c by (rule pos_imp_zdiv_neg_iff)
  finally show ?thesis by simp
qed

lemma hours_floor: "(a::int) div 60000 div 60 = a div 3600000"
  by (simp add: zdiv_zmult2_eq [symmetric])

text \<open>
  C9.  With \<open>elapsed = now - sentAt\<close> in milliseconds, the label is \<open>Just now\<close> under one
  minute, the floor of the elapsed minutes followed by \<open>m ago\<close> under sixty minutes, the
  floor of the elapsed hours followed by \<open>h ago\<close> under twenty-four hours, and the
  locale's calendar date of \<open>sentAt\<close> from then on.  The equation holds for every pair
  of dates, those with \<open>sentAt\<close> in the past among them.
\<close>

theorem formatTime_labels:
  "formatTime locale now sentAt =
     (let elapsed = now - sentAt
      in if elapsed < 60000 then ''Just now''
         else if elapsed < 3600000 then string_of_int (elapsed div 60000) @ ''m ago''
         else if elapsed < 86400000 then string_of_int (elapsed div 3600000) @ ''h ago''
         else locale sentAt)"
  by (simp add: formatTime_def Let_def hours_floor int_div_less_iff)

text \<open>Ninety minutes are one hour, rounded down.\<close>

theorem formatTime_labels_witness:
  "formatTime (\<lambda>_. ''12/15/2025'') 5400000 0 = ''1h ago''"
  using formatTime_labels [of "\<lambda>_. ''12/15/2025''" 5400000 0]
  by (simp add: string_of_int_def digits.simps)

lemma formatTime_30_seconds: "formatTime locale (t + 30000) t = ''Just now''"
  by (simp add: formatTime_def)

lemma formatTime_5_minutes: "formatTime locale (t + 300000) t = ''5m ago''"
  by (simp add: formatTime_def string_of_int_def digits.simps)

lemma formatTime_2_days: "formatTime locale (t + 172800000) t = locale t"
  by (simp add: formatTime_def)

section \<open>The poll timer\<close>

lemma same_timers_refl [simp]: "same_timers s s"
  by (simp add: same_timers_def)

lemma tracked_same: "same_timers s s' \<Longrightarrow> timer_tracked s \<Longrightarrow> timer_tracked s'"
  by (simp add: same_timers_def timer_tracked_def cong: option.case_cong)

lemma showError_timers [simp]: "same_timers s (showError m s)"
  by (simp add: same_timers_def showError_def)

lemma throw_timers [simp]: "same_timers s (throw s)"
  by (simp add: same_timers_def throw_def)

lemma fetch_timers [simp]: "same_timers s (fetch req t s)"
  by (simp add: same_timers_def fetch_def)

lemma loadMessages_resume_timers [simp]: "same_timers s (loadMessages_resume r s)"
  by (auto simp: same_timers_def loadMessages_resume_def load_failed_def showError_def
        renderMessages_def Let_def split: response.splits body.splits option.splits)

lemma loadMessages_call_timers [simp]: "same_timers s (loadMessages_call c s)"
  by (simp add: loadMessages_call_def)

lemma sendMessage_call_timers [simp]: "same_timers s (sendMessage_call s)"
  by (auto simp: same_timers_def sendMessage_call_def showError_def throw_def fetch_def Let_def
        split: option.splits)

lemma sendMessage_finally_timers [simp]: "same_timers s (sendMessage_finally s)"
  by (auto simp: same_timers_def sendMessage_finally_def throw_def Let_def split: option.splits)

lemma sendMessage_resume_timers [simp]: "same_timers s (sendMessage_resume r s)"
  by (auto simp: same_timers_def sendMessage_resume_def send_failed_def sendMessage_finally_def
        showError_def throw_def loadMessages_call_def fetch_def Let_def
        split: response.splits option.splits)

lemma edit_timers [simp]: "same_timers s (edit text s)"
  by (auto simp: same_timers_def edit_def split: option.splits)

lemma stopPolling_tracked: "timer_tracked s \<Longrightarrow> timer_tracked (stopPolling s)"
  by (auto simp: timer_tracked_def stopPolling_def split: option.splits)

lemma stopPolling_none:
  "timer_tracked s \<Longrightarrow> timers (stopPolling s) = [] \<and> pollingInterval (stopPolling s) = None"
  by (auto simp: timer_tracked_def stopPolling_def split: option.splits)

lemma stopPolling_next_timer [simp]: "next_timer (stopPolling s) = next_timer s"
  by (simp add: stopPolling_def split: option.splits)

lemma startPolling_fresh:
  "timer_tracked s \<Longrightarrow>
   timers (startPolling s) = [next_timer s] \<and> pollingInterval (startPolling s) = Some (next_timer s) \<and>
   next_timer (startPolling s) = Suc (next_timer s)"
  using stopPolling_none [of s] by (simp add: startPolling_def Let_def)

lemma startPolling_tracked: "timer_tracked s \<Longrightarrow> timer_tracked (startPolling s)"
  using startPolling_fresh [of s] by (simp add: timer_tracked_def)

lemma open_call_tracked: "timer_tracked s \<Longrightarrow> timer_tracked (open_call oid u title s)"
  by (auto simp: timer_tracked_def open_call_def loadMessages_call_def fetch_def throw_def Let_def
        split: option.splits)

lemma open_resume_tracked: "timer_tracked s \<Longrightarrow> timer_tracked (open_resume s)"
  using startPolling_tracked [of s]
  by (auto simp: timer_tracked_def open_resume_def Let_def split: option.splits)

lemma close_tracked: "timer_tracked s \<Longrightarrow> timer_tracked (close s)"
proof -
  assume t: "timer_tracked s"
  have "timer_tracked (s\<lparr>modal := Some ''none''\<rparr>)"
    using t by (simp add: timer_tracked_def cong: option.case_cong)
  from stopPolling_tracked [OF this] t show ?thesis
    by (auto simp: timer_tracked_def close_def throw_def Let_def split: option.splits)
qed

lemma destroy_tracked: "timer_tracked s \<Longrightarrow> timer_tracked (destroy s)"
  by (simp add: destroy_def close_tracked stopPolling_tracked)

lemma after_load_tracked: "timer_tracked s \<Longrightarrow> timer_tracked (after_load c s)"
  by (cases c)
     (auto simp: after_load_def open_resume_tracked
        intro: tracked_same [OF sendMessage_finally_timers])

lemma resume_tracked: "timer_tracked s \<Longrightarrow> timer_tracked (resume t r s)"
  by (cases t)
     (auto simp: resume_def
        intro: after_load_tracked tracked_same [OF loadMessages_resume_timers]
          tracked_same [OF sendMessage_resume_timers])

lemma step_tracked: "timer_tracked s \<Longrightarrow> timer_tracked (step e s)"
proof (cases e)
  case (Answer n r)
  assume t: "timer_tracked s"
  have "timer_tracked (s\<lparr>inflight := xs\<rparr>)" for xs
    using t by (simp add: timer_tracked_def cong: option.case_cong)
  then show ?thesis using t Answer
    by (auto simp: step_def intro: resume_tracked split: option.splits)
next
  case (Clock x)
  assume "timer_tracked s"
  then show ?thesis using Clock by (simp add: step_def timer_tracked_def cong: option.case_cong)
qed (auto simp: step_def open_call_tracked close_tracked destroy_tracked startPolling_tracked
       stopPolling_tracked
       intro: tracked_same [OF sendMessage_call_timers] tracked_same [OF loadMessages_call_timers]
         tracked_same [OF edit_timers])

lemma run_tracked: "timer_tracked s \<Longrightarrow> timer_tracked (run es s)"
  by (induction es rule: rev_induct) (simp_all add: run_def step_tracked)

lemma constructor_tracked: "timer_tracked (constructor doc locale arg)"
  by (simp add: timer_tracked_def constructor_def Let_def)

lemma reachable_tracked: "timer_tracked (run es (constructor doc locale arg))"
  by (rule run_tracked [OF constructor_tracked])

lemma startPolling_repeated:
  "timer_tracked s \<Longrightarrow>
   timer_tracked ((startPolling ^^ n) s) \<and> (0 < n \<longrightarrow> length (timers ((startPolling ^^ n) s)) = 1)"
proof (induction n)
  case 0
  then show ?case by simp
next
  case (Suc n)
  then have t: "timer_tracked ((startPolling ^^ n) s)" by simp
  show ?case using startPolling_tracked [OF t] startPolling_fresh [OF t] by simp
qed

text \<open>
  C7.  In every state the widget reaches from its construction, whatever the events,
  at most one poll timer is running; after one or more calls of \<open>startPolling\<close> with
  no \<open>stopPolling\<close> in between exactly one is running; and \<open>stopPolling\<close> with no
  timer running changes nothing, and so throws nothing.
\<close>

theorem one_poll_timer:
  "(let s = run es (constructor doc locale arg)
    in length (timers s) \<le> 1 \<and>
       length (timers ((startPolling ^^ Suc n) s)) = 1 \<and>
       (timers s = [] \<longrightarrow> stopPolling s = s))"
proof -
  define s where "s = run es (constructor doc locale arg)"
  have t: "timer_tracked s" unfolding s_def by (rule reachable_tracked)
  have a: "length (timers s) \<le> 1"
    using t by (simp add: timer_tracked_def split: option.splits)
  have b: "length (timers ((startPolling ^^ Suc n) s)) = 1"
    using startPolling_repeated [OF t, of "Suc n"] by simp
  have c: "timers s = [] \<longrightarrow> stopPolling s = s"
    using t by (auto simp: timer_tracked_def stopPolling_def split: option.splits)
  show ?thesis using a b c by (simp add: Let_def s_def)
qed

theorem one_poll_timer_witness:
  "timers (run [Open 7 (Some alice) None, Answer 0 (Http True (Messages [])), StartPolling] widget) = [2] \<and>
   timers ((startPolling ^^ 2)
      (run [Open 7 (Some alice) None, Answer 0 (Http True (Messages [])), StartPolling] widget)) = [4] \<and>
   timers (run [Open 7 (Some alice) None, Answer 0 (Http True (Messages [])), Close] widget) = [] \<and>
   stopPolling (run [Open 7 (Some alice) None, Answer 0 (Http True (Messages [])), Close] widget) =
     run [Open 7 (Some alice) None, Answer 0 (Http True (Messages [])), Close] widget"
proof -
  have e: "timers (run [Open 7 (Some alice) None, Answer 0 (Http True (Messages [])), Close] widget) = []"
    by (simp add: eval_defs)
  have f: "timers (run [Open 7 (Some alice) None, Answer 0 (Http True (Messages [])), StartPolling] widget) = [2]"
    by (simp add: eval_defs)
  have g: "timers ((startPolling ^^ 2)
      (run [Open 7 (Some alice) None, Answer 0 (Http True (Messages [])), StartPolling] widget)) = [4]"
    by (simp add: eval_defs numeral_2_eq_2)
  show ?thesis
    using e f g
      one_poll_timer [of "[Open 7 (Some alice) None, Answer 0 (Http True (Messages [])), Close]"
        page "\<lambda>_. ''12/15/2025''" defaults 1]
    by (simp add: Let_def widget_def)
qed

text \<open>
  C3.  \<open>open\<close> followed at once by \<open>close\<close>, with the answer of the first load arriving
  after the \<open>close\<close>: \<open>close\<close> finds no timer to stop, and the rest of \<open>open\<close> then starts
  one.  The widget is closed, its timer runs, and each tick asks for the messages of
  the offer \<open>null\<close>.
\<close>

theorem close_during_open_leaves_timer:
  "(let s = run [Open 7 (Some alice) None, Close, Answer 0 (Http True (Messages []))] widget
    in modal s = Some ''none'' \<and> offerId s = None \<and>
       timers s = [1] \<and> pollingInterval s = Some 1 \<and>
       requests (step (Tick 1) s) = [GET_messages (Some 7), GET_messages None])"
  by (simp add: eval_defs)

section \<open>close\<close>

text \<open>
  C8, as the claim states it, fails: \<open>close\<close> does not touch \<open>messages\<close>, and neither
  does \<open>open\<close> for another offer.  After a load that brought one message, the message
  is still in the collection once the widget is closed, and once it is switched to
  offer 8.
\<close>

theorem close_keeps_messages:
  "messages (run [Open 7 (Some alice) None, Answer 0 (Http True (Messages [greeting])), Close]
      widget) = [greeting] \<and>
   messages (run [Open 7 (Some alice) None, Answer 0 (Http True (Messages [greeting])), Close]
      widget) \<noteq> [] \<and>
   messages (run [Open 7 (Some alice) None, Answer 0 (Http True (Messages [greeting])),
      Open 8 (Some alice) None] widget) = [greeting]"
  by (simp add: eval_defs)

lemma stopPolling_messages [simp]: "messages (stopPolling s) = messages s"
  by (simp add: stopPolling_def split: option.splits)

text \<open>
  C8, amended.  On a widget whose modal exists, in any state it can reach, \<open>close\<close>
  leaves no timer running and the handle \<open>null\<close>, clears the offer and the draft in the
  input, throws nothing, and closing again changes nothing more.  The message
  collection is kept as it is, by \<open>close\<close> and by \<open>open\<close> for another offer.
\<close>

theorem close_effects:
  assumes "modal s \<noteq> None" and "timer_tracked s"
  shows "(let s' = close s
          in timers s' = [] \<and> pollingInterval s' = None \<and> offerId s' = None \<and>
             map_option input_value (messageInput s') = map_option (\<lambda>_. []) (messageInput s) \<and>
             uncaught s' = uncaught s \<and>
             close s' = s' \<and>
             messages s' = messages s \<and>
             messages (open_call oid u title s) = messages s)"
proof -
  obtain d where d: "modal s = Some d" using assms(1) by auto
  have t: "timers s = (case pollingInterval s of None \<Rightarrow> [] | Some h \<Rightarrow> [h])"
    using assms(2) by (simp add: timer_tracked_def)
  have a: "timers (close s) = [] \<and> pollingInterval (close s) = None \<and> offerId (close s) = None"
    using d t by (auto simp: close_def stopPolling_def Let_def split: option.splits)
  have b: "map_option input_value (messageInput (close s)) = map_option (\<lambda>_. []) (messageInput s)"
    using d by (auto simp: close_def stopPolling_def Let_def split: option.splits)
  have c: "uncaught (close s) = uncaught s \<and> messages (close s) = messages s"
    using d by (auto simp: close_def stopPolling_def Let_def split: option.splits)
  have e: "close (close s) = close s"
    using d by (auto simp: close_def stopPolling_def Let_def split: option.splits)
  have f: "messages (open_call oid u title s) = messages s"
    by (auto simp: open_call_def loadMessages_call_def fetch_def throw_def Let_def
          split: option.splits)
  show ?thesis using a b c e f by (simp add: Let_def)
qed

theorem close_effects_witness:
  "(let s = run [Open 7 (Some alice) None, Answer 0 (Http True (Messages [greeting])),
               Edit ''On my way''] widget
    in modal s = Some ''flex'' \<and> timers s = [1] \<and> offerId s = Some 7 \<and>
       map_option input_value (messageInput s) = Some ''On my way'' \<and>
       timers (close s) = [] \<and> pollingInterval (close s) = None \<and> offerId (close s) = None \<and>
       map_option input_value (messageInput (close s)) = Some [] \<and>
       close (close s) = close s \<and>
       messages (close s) = [greeting] \<and>
       messages (open_call 8 (Some alice) None s) = [greeting])"
proof -
  define s where
    "s = run [Open 7 (Some alice) None, Answer 0 (Http True (Messages [greeting])),
              Edit ''On my way''] widget"
  have m: "modal s = Some ''flex''" and ti: "timers s = [1]" and o: "offerId s = Some 7"
    and i: "messageInput s =
              Some \<lparr>input_value = ''On my way'', input_disabled = False, input_focused = True\<rparr>"
    and ms: "messages s = [greeting]"
    unfolding s_def by (simp_all add: eval_defs)
  have t: "timer_tracked s"
    unfolding s_def widget_def by (rule reachable_tracked)
  have n: "modal s \<noteq> None" using m by simp
  show ?thesis
    using close_effects [OF n t, of 8 "Some alice" None] m ti o i ms
    unfolding s_def [symmetric] by (simp add: Let_def)
qed

section \<open>loadMessages\<close>

text \<open>
  C5.  When the request fails (the promise of \<open>fetch\<close> rejects, or the response is not
  \<open>ok\<close>), \<open>loadMessages\<close> changes nothing but the notices: the collection and the
  rendered markup stay, one notice is added, nothing is thrown, the timers are as they
  were, and a tick of a running timer sends the next request.
\<close>

theorem failed_refresh:
  assumes "r = NetworkError \<or> r = Http False b"
  shows "(let s' = loadMessages_resume r s
          in s' = s\<lparr>notices := notices s @ [''Failed to load messages. Please try again.'']\<rparr> \<and>
             messages s' = messages s \<and> messagesContainer s' = messagesContainer s \<and>
             uncaught s' = uncaught s \<and>
             timers s' = timers s \<and> pollingInterval s' = pollingInterval s \<and>
             (\<forall>h \<in> set (timers s').
                requests (step (Tick h) s') = requests s' @ [GET_messages (offerId s')]))"
proof -
  have e: "loadMessages_resume r s =
             s\<lparr>notices := notices s @ [''Failed to load messages. Please try again.'']\<rparr>"
    using assms by (auto simp: loadMessages_resume_def load_failed_def showError_def)
  show ?thesis
    unfolding Let_def e by (simp add: step_def loadMessages_call_def fetch_def)
qed

theorem failed_refresh_witness:
  "(let s = run [Open 7 (Some alice) None, Answer 0 (Http True (Messages [greeting])), Tick 1]
              widget;
        s' = loadMessages_resume (Http False NotAnObject) s
    in timers s = [1] \<and> messages s' = [greeting] \<and>
       notices s' = [''Failed to load messages. Please try again.''] \<and>
       uncaught s' = 0 \<and> timers s' = [1] \<and>
       requests (step (Tick 1) s') =
         [GET_messages (Some 7), GET_messages (Some 7), GET_messages (Some 7)])"
proof -
  define s where
    "s = run [Open 7 (Some alice) None, Answer 0 (Http True (Messages [greeting])), Tick 1] widget"
  define s' where "s' = loadMessages_resume (Http False NotAnObject) s"
  have f: "timers s = [1]" "messages s = [greeting]" "notices s = []" "uncaught s = 0"
    "offerId s = Some 7" "requests s = [GET_messages (Some 7), GET_messages (Some 7)]"
    unfolding s_def by (simp_all add: eval_defs)
  have h: "Http False NotAnObject = NetworkError \<or> Http False NotAnObject = Http False NotAnObject"
    by simp
  note th = failed_refresh [OF h, of s, unfolded Let_def, folded s'_def]
  from th have e: "s' = s\<lparr>notices := notices s @ [''Failed to load messages. Please try again.'']\<rparr>"
    by (rule conjunct1)
  from th have k: "messages s' = messages s" "uncaught s' = uncaught s" "timers s' = timers s"
    by blast+
  from th have tick: "\<forall>h \<in> set (timers s').
      requests (step (Tick h) s') = requests s' @ [GET_messages (offerId s')]"
    by blast
  have "1 \<in> set (timers s')" using k f by simp
  with tick have "requests (step (Tick 1) s') = requests s' @ [GET_messages (offerId s')]"
    by (rule bspec)
  moreover have "requests s' = requests s" "offerId s' = offerId s" "notices s' = notices s @ [''Failed to load messages. Please try again.'']"
    by (simp_all add: e)
  ultimately show ?thesis
    using k f unfolding s_def [symmetric] Let_def s'_def [symmetric] by simp
qed

text \<open>
  C10.  A response that is \<open>ok\<close> and whose body has no \<open>messages\<close> (missing, \<open>null\<close> or
  otherwise falsy) is a successful load: the collection becomes empty, the container,
  where the page has one, shows the placeholder, no notice is raised and nothing is
  thrown.
\<close>

theorem empty_body_is_success:
  "(let s' = loadMessages_resume (Http True NoMessages) s
    in messages s' = [] \<and>
       messagesContainer s' = map_option (\<lambda>_. empty_markup) (messagesContainer s) \<and>
       notices s' = notices s \<and> uncaught s' = uncaught s)"
  by (auto simp: loadMessages_resume_def renderMessages_def Let_def split: option.splits)

theorem empty_body_is_success_witness:
  "(let s = run [Open 7 (Some alice) None, Answer 0 (Http True (Messages [greeting])), Tick 1]
              widget;
        s' = step (Answer 1 (Http True NoMessages)) s
    in messages s = [greeting] \<and> messages s' = [] \<and>
       messagesContainer s' = Some empty_markup \<and> notices s' = [])"
proof -
  define s where
    "s = run [Open 7 (Some alice) None, Answer 0 (Http True (Messages [greeting])), Tick 1] widget"
  define s0 where "s0 = s\<lparr>inflight := filter (\<lambda>p. fst p \<noteq> 1) (inflight s)\<rparr>"
  define s' where "s' = step (Answer 1 (Http True NoMessages)) s"
  have i: "map_of (inflight s) 1 = Some (GET_messages (Some 7), Loading FromTick)"
    unfolding s_def by (simp add: eval_defs)
  have st: "s' = loadMessages_resume (Http True NoMessages) s0"
    unfolding s'_def s0_def using i by (simp add: step_def resume_def after_load_def)
  have f: "messages s = [greeting]" "notices s0 = []" "messagesContainer s0 \<noteq> None"
    unfolding s0_def s_def by (simp_all add: eval_defs)
  note th = empty_body_is_success [of s0, unfolded Let_def, folded st]
  from th f have "messages s' = []" "messagesContainer s' = Some empty_markup" "notices s' = []"
    by auto
  then show ?thesis
    using f unfolding s_def [symmetric] Let_def s'_def [symmetric] by simp
qed

section \<open>Rendering\<close>

lemma tag_opens_append [simp]: "tag_opens (a @ b) = tag_opens a + tag_opens b"
  by (simp add: tag_opens_def)

lemma tag_opens_Cons [simp]: "tag_opens (c # cs) = (if c = CHR ''<'' then 1 else 0) + tag_opens cs"
  by (simp add: tag_opens_def)

lemma tag_opens_Nil [simp]: "tag_opens [] = 0"
  by (simp add: tag_opens_def)

lemma tag_opens_indent [simp]: "tag_opens (indent n) = 0"
  by (simp add: tag_opens_def indent_def)

lemma tag_opens_escape_char [simp]: "tag_opens (escape_char c) = 0"
  by (simp add: escape_char_def)

lemma tag_opens_escapeHtml [simp]: "tag_opens (escapeHtml name) = 0"
  by (induction name) (simp_all add: escapeHtml_def)

lemma tag_opens_message_markup:
  "tag_opens (message_markup messageClass sender time content) =
     10 + tag_opens messageClass + tag_opens sender + tag_opens time + tag_opens content"
  by (simp add: message_markup_def)

text \<open>
  C1, as the claim states it, fails.  A message whose text is a \<open>script\<close> element and
  whose sender name holds tags is loaded and rendered: the name arrives escaped, the
  text arrives as it is, and the markup has two more tag openers than the same message
  with an empty text.
\<close>

theorem script_text_is_markup:
  \<open>messagesContainer
      (run [Open 7 (Some alice) None, Answer 0 (Http True (Messages [script_message]))] widget) =
     Some (message_markup ''chat-message-received'' ''&lt;b&gt;Bob&lt;/b&gt;'' ''Just now''
             ''<script>alert(1)</script>'') \<and>
   tag_opens (renderMessage (\<lambda>_. ''12/15/2025'') 0 alice script_message) = 12 \<and>
   tag_opens (renderMessage (\<lambda>_. ''12/15/2025'') 0 alice (script_message\<lparr>message_text := []\<rparr>)) = 10\<close>
  by (simp add: eval_defs script_message_def renderMessage_def tag_opens_message_markup
        formatTime_def escapeHtml_def escape_char_def)

lemma escape_char_clean:
  "CHR ''<'' \<notin> set (escape_char c) \<and> CHR ''>'' \<notin> set (escape_char c) \<and>
   CHR 0xA0 \<notin> set (escape_char c)"
  by (simp add: escape_char_def)

lemma escapeHtml_clean:
  "CHR ''<'' \<notin> set (escapeHtml name) \<and> CHR ''>'' \<notin> set (escapeHtml name) \<and>
   CHR 0xA0 \<notin> set (escapeHtml name)"
  using escape_char_clean by (auto simp: escapeHtml_def)

lemma unescape_escape_char: "unescape (escape_char c @ rest) = c # unescape rest"
  by (simp add: escape_char_def)

lemma unescape_escapeHtml: "unescape (escapeHtml name) = name"
  by (induction name) (simp_all add: escapeHtml_def unescape_escape_char)

text \<open>
  C1, amended.  The sender name is escaped: it stands in the \<open>span\<close> of the sender as
  \<open>escapeHtml\<close> writes it, which has no \<open><\<close>, no \<open>>\<close> and no NBSP and reads back as the
  name; the rest of the markup is the same for every name.  The text is inserted as it
  is: it stands in the \<open>div\<close> of the content unchanged, and the rest of the markup is
  the same for every text.  So a name adds no tag opener to the markup, and a text adds
  the tag openers it has.
\<close>

theorem name_escaped_text_verbatim:
  \<open>(\<exists>front back. \<forall>name.
      renderMessage loc now u (msg\<lparr>sender_name := name\<rparr>) =
        front @ ''<span class="chat-message-sender">'' @ escapeHtml name @ ''</span>'' @ back) \<and>
   (\<forall>name. CHR ''<'' \<notin> set (escapeHtml name) \<and> CHR ''>'' \<notin> set (escapeHtml name) \<and>
      CHR 0xA0 \<notin> set (escapeHtml name) \<and> unescape (escapeHtml name) = name) \<and>
   (\<exists>front back. \<forall>content.
      renderMessage loc now u (msg\<lparr>message_text := content\<rparr>) =
        front @ ''<div class="chat-message-content">'' @ indent 24 @ content @
        indent 20 @ ''</div>'' @ back) \<and>
   tag_opens (renderMessage loc now u (msg\<lparr>sender_name := name\<rparr>)) =
     tag_opens (renderMessage loc now u (msg\<lparr>sender_name := []\<rparr>)) \<and>
   tag_opens (renderMessage loc now u (msg\<lparr>message_text := content\<rparr>)) =
     tag_opens (renderMessage loc now u (msg\<lparr>message_text := []\<rparr>)) + tag_opens content\<close>
proof -
  define messageClass where
    "messageClass = (if sender_id msg = user_id u then ''chat-message-sent''
                     else ''chat-message-received'')"
  define time where "time = formatTime loc now (sent_at msg)"
  define front1 where
    \<open>front1 = indent 16 @ ''<div class="chat-message '' @ messageClass @ ''">'' @
       indent 20 @ ''<div class="chat-message-header">'' @ indent 24\<close>
  define back1 where
    \<open>back1 = indent 24 @ ''<span class="chat-message-time">'' @ time @ ''</span>'' @
       indent 20 @ ''</div>'' @
       indent 20 @ ''<div class="chat-message-content">'' @
       indent 24 @ message_text msg @
       indent 20 @ ''</div>'' @
       indent 16 @ ''</div>'' @
       indent 12\<close>
  define front2 where
    \<open>front2 = indent 16 @ ''<div class="chat-message '' @ messageClass @ ''">'' @
       indent 20 @ ''<div class="chat-message-header">'' @
       indent 24 @ ''<span class="chat-message-sender">'' @ escapeHtml (sender_name msg) @
         ''</span>'' @
       indent 24 @ ''<span class="chat-message-time">'' @ time @ ''</span>'' @
       indent 20 @ ''</div>'' @ indent 20\<close>
  define back2 where \<open>back2 = indent 16 @ ''</div>'' @ indent 12\<close>
  have a: \<open>\<forall>name. renderMessage loc now u (msg\<lparr>sender_name := name\<rparr>) =
      front1 @ ''<span class="chat-message-sender">'' @ escapeHtml name @ ''</span>'' @ back1\<close>
    by (simp add: renderMessage_def message_markup_def Let_def front1_def back1_def
          messageClass_def time_def)
  have b: \<open>\<forall>content. renderMessage loc now u (msg\<lparr>message_text := content\<rparr>) =
      front2 @ ''<div class="chat-message-content">'' @ indent 24 @ content @
      indent 20 @ ''</div>'' @ back2\<close>
    by (simp add: renderMessage_def message_markup_def Let_def front2_def back2_def
          messageClass_def time_def)
  have c: "\<forall>name. CHR ''<'' \<notin> set (escapeHtml name) \<and> CHR ''>'' \<notin> set (escapeHtml name) \<and>
      CHR 0xA0 \<notin> set (escapeHtml name) \<and> unescape (escapeHtml name) = name"
    using escapeHtml_clean unescape_escapeHtml by simp
  have d: "tag_opens (renderMessage loc now u (msg\<lparr>sender_name := name\<rparr>)) =
     tag_opens (renderMessage loc now u (msg\<lparr>sender_name := []\<rparr>))"
    "tag_opens (renderMessage loc now u (msg\<lparr>message_text := content\<rparr>)) =
     tag_opens (renderMessage loc now u (msg\<lparr>message_text := []\<rparr>)) + tag_opens content"
    by (simp_all add: renderMessage_def tag_opens_message_markup Let_def)
  from a have a': \<open>\<exists>front back. \<forall>name.
      renderMessage loc now u (msg\<lparr>sender_name := name\<rparr>) =
        front @ ''<span class="chat-message-sender">'' @ escapeHtml name @ ''</span>'' @ back\<close>
    by blast
  from b have b': \<open>\<exists>front back. \<forall>content.
      renderMessage loc now u (msg\<lparr>message_text := content\<rparr>) =
        front @ ''<div class="chat-message-content">'' @ indent 24 @ content @
        indent 20 @ ''</div>'' @ back\<close>
    by blast
  from a' c b' d show ?thesis by (intro conjI)
qed

theorem name_escaped_text_verbatim_witness:
  "escapeHtml ''<b>Bob</b>'' = ''&lt;b&gt;Bob&lt;/b&gt;'' \<and>
   unescape ''&lt;b&gt;Bob&lt;/b&gt;'' = ''<b>Bob</b>'' \<and>
   tag_opens (renderMessage (\<lambda>_. ''12/15/2025'') 0 alice
      (script_message\<lparr>sender_name := ''<b>Bob</b>''\<rparr>)) = 12 \<and>
   tag_opens (renderMessage (\<lambda>_. ''12/15/2025'') 0 alice
      (script_message\<lparr>sender_name := []\<rparr>)) = 12 \<and>
   tag_opens (renderMessage (\<lambda>_. ''12/15/2025'') 0 alice
      (script_message\<lparr>message_text := ''<script>alert(1)</script>''\<rparr>)) = 12 \<and>
   tag_opens (renderMessage (\<lambda>_. ''12/15/2025'') 0 alice
      (script_message\<lparr>message_text := []\<rparr>)) = 10"
proof -
  note th = name_escaped_text_verbatim [where loc = "\<lambda>_. ''12/15/2025''" and now = 0
        and u = alice and msg = script_message and name = "''<b>Bob</b>''"
        and content = "''<script>alert(1)</script>''"]
  have e: "escapeHtml ''<b>Bob</b>'' = ''&lt;b&gt;Bob&lt;/b&gt;''"
    by (simp add: escapeHtml_def escape_char_def)
  from th have "unescape (escapeHtml ''<b>Bob</b>'') = ''<b>Bob</b>''" by blast
  then have r: "unescape ''&lt;b&gt;Bob&lt;/b&gt;'' = ''<b>Bob</b>''" by (simp only: e)
  from th have t:
    "tag_opens (renderMessage (\<lambda>_. ''12/15/2025'') 0 alice
        (script_message\<lparr>sender_name := ''<b>Bob</b>''\<rparr>)) =
     tag_opens (renderMessage (\<lambda>_. ''12/15/2025'') 0 alice
        (script_message\<lparr>sender_name := []\<rparr>))"
    "tag_opens (renderMessage (\<lambda>_. ''12/15/2025'') 0 alice
        (script_message\<lparr>message_text := ''<script>alert(1)</script>''\<rparr>)) =
     tag_opens (renderMessage (\<lambda>_. ''12/15/2025'') 0 alice
        (script_message\<lparr>message_text := []\<rparr>)) + tag_opens ''<script>alert(1)</script>''"
    by blast+
  have a: "tag_opens (renderMessage (\<lambda>_. ''12/15/2025'') 0 alice
      (script_message\<lparr>message_text := []\<rparr>)) = 10"
    "tag_opens (renderMessage (\<lambda>_. ''12/15/2025'') 0 alice
      (script_message\<lparr>sender_name := []\<rparr>)) = 12"
    by (simp_all add: script_message_def renderMessage_def tag_opens_message_markup formatTime_def)
  show ?thesis using e r t a by simp
qed

section \<open>Validation in sendMessage\<close>

text \<open>
  C4, as the claim states it, fails: the length that is compared with the maximum is the
  length of the trimmed text.  With a maximum of three, the input \<open>hi\<close> followed by
  three spaces has five characters; it is sent, as \<open>hi\<close>, and no notice is raised.
\<close>

theorem long_input_short_text_is_sent:
  "(let s = run [Open 7 (Some alice) None, Answer 0 (Http True (Messages [])), Edit ''hi   '']
              short_widget;
        s' = step SendMessage s
    in maxMessageLength (options s) = 3 \<and>
       map_option input_value (messageInput s) = Some ''hi   '' \<and>
       length ''hi   '' = 5 \<and>
       requests s' = requests s @ [POST_messages (Some 7) ''hi''] \<and>
       notices s' = [])"
  by (simp add: eval_defs short_widget_def trim_def is_whitespace_def)

text \<open>
  C4, amended.  \<open>sendMessage\<close> trims the value of the input.  When the trimmed text is
  empty it returns and nothing has changed.  When the trimmed text is longer than the
  configured maximum, the only change is one notice that cites the maximum.  A request
  is sent only when the trimmed text is not empty and not longer than the maximum, and
  then it is the POST of the trimmed text.  Without an input element nothing is sent.
  The maximum is 1000 when the constructor is given none.
\<close>

theorem send_validation:
  "(case messageInput s of
      None \<Rightarrow> requests (sendMessage_call s) = requests s
    | Some i \<Rightarrow>
        (let t = trim (input_value i); m = maxMessageLength (options s)
         in (t = [] \<longrightarrow> sendMessage_call s = s) \<and>
            (t \<noteq> [] \<and> m < length t \<longrightarrow>
               sendMessage_call s =
                 s\<lparr>notices := notices s @
                      [''Message is too long. Maximum '' @ digits m @ '' characters.'']\<rparr>) \<and>
            (requests (sendMessage_call s) \<noteq> requests s \<longrightarrow>
               t \<noteq> [] \<and> length t \<le> m \<and>
               requests (sendMessage_call s) = requests s @ [POST_messages (offerId s) t]))) \<and>
   maxMessageLength (make_options (arg\<lparr>maxMessageLength_arg := None\<rparr>)) = 1000"
  by (auto simp: sendMessage_call_def showError_def too_long_def throw_def fetch_def Let_def
        make_options_def spread_def or_default_def split: option.splits)


theorem send_validation_witness:
  "(let s = run [Open 7 (Some alice) None, Answer 0 (Http True (Messages [])), Edit ''   '']
              short_widget
    in trim ''   '' = [] \<and> sendMessage_call s = s) \<and>
   (let s = run [Open 7 (Some alice) None, Answer 0 (Http True (Messages [])), Edit ''hello'']
              short_widget
    in trim ''hello'' = ''hello'' \<and>
       sendMessage_call s = s\<lparr>notices := [''Message is too long. Maximum 3 characters.'']\<rparr>) \<and>
   (let s = run [Open 7 (Some alice) None, Answer 0 (Http True (Messages [])), Edit '' hi '']
              short_widget
    in requests (sendMessage_call s) = [GET_messages (Some 7), POST_messages (Some 7) ''hi'']) \<and>
   maxMessageLength (options widget) = 1000"
proof -
  define s1 where
    "s1 = run [Open 7 (Some alice) None, Answer 0 (Http True (Messages [])), Edit ''   '']
            short_widget"
  define s2 where
    "s2 = run [Open 7 (Some alice) None, Answer 0 (Http True (Messages [])), Edit ''hello'']
            short_widget"
  define s3 where
    "s3 = run [Open 7 (Some alice) None, Answer 0 (Http True (Messages [])), Edit '' hi '']
            short_widget"
  have i1: "messageInput s1 =
      Some \<lparr>input_value = ''   '', input_disabled = False, input_focused = True\<rparr>"
    unfolding s1_def by (simp add: eval_defs short_widget_def)
  have i2: "messageInput s2 =
      Some \<lparr>input_value = ''hello'', input_disabled = False, input_focused = True\<rparr>"
    and m2: "maxMessageLength (options s2) = 3" and n2: "notices s2 = []"
    unfolding s2_def by (simp_all add: eval_defs short_widget_def)
  have i3: "messageInput s3 =
      Some \<lparr>input_value = '' hi '', input_disabled = False, input_focused = True\<rparr>"
    and m3: "maxMessageLength (options s3) = 3" and o3: "offerId s3 = Some 7"
    and r3: "requests s3 = [GET_messages (Some 7)]"
    unfolding s3_def by (simp_all add: eval_defs short_widget_def)
  have t1: "trim ''   '' = []" and t2: "trim ''hello'' = ''hello''" and t3: "trim '' hi '' = ''hi''"
    by (simp_all add: trim_def is_whitespace_def)
  have d3: "digits 3 = ''3''" by (simp add: digits.simps)
  have a: "sendMessage_call s1 = s1"
    using send_validation [of s1 defaults] i1 t1 by (simp add: Let_def)
  have b: "sendMessage_call s2 = s2\<lparr>notices := [''Message is too long. Maximum 3 characters.'']\<rparr>"
    using send_validation [of s2 defaults] i2 t2 m2 n2 d3 by (simp add: Let_def)
  have "requests (sendMessage_call s3) \<noteq> requests s3"
    using i3 t3 m3 r3 o3
    by (simp add: s3_def eval_defs short_widget_def)
  then have c: "requests (sendMessage_call s3) = [GET_messages (Some 7), POST_messages (Some 7) ''hi'']"
    using send_validation [of s3 defaults] i3 t3 m3 r3 o3 by (simp add: Let_def)
  have d: "maxMessageLength (options widget) = 1000"
    using send_validation [of s1 defaults]
    by (simp add: widget_def constructor_def defaults_def Let_def)
  show ?thesis
    using a b c d t1 t2
    unfolding s1_def [symmetric] s2_def [symmetric] s3_def [symmetric] Let_def by simp
qed

section \<open>A send that passes validation\<close>

lemma send_failed_effects:
  assumes "messageInput x = Some j" and "sendButton x = Some c"
  shows "send_failed x =
     x\<lparr>notices := notices x @ [''Failed to send message. Please try again.''],
       messageInput := Some (j\<lparr>input_disabled := False, input_focused := True\<rparr>),
       sendButton := Some False\<rparr>"
  using assms
  by (simp add: send_failed_def sendMessage_finally_def showError_def focus_def Let_def)

lemma loadMessages_resume_input:
  "messageInput (loadMessages_resume r x) = messageInput x \<and>
   sendButton (loadMessages_resume r x) = sendButton x"
  by (auto simp: loadMessages_resume_def load_failed_def showError_def renderMessages_def Let_def
        split: response.splits body.splits option.splits)

lemma refresh_after_send:
  assumes "messageInput x = Some j" and "sendButton x = Some c"
  shows "messageInput (resume (Loading FromSend) r x) =
           Some (j\<lparr>input_disabled := False, input_focused := True\<rparr>) \<and>
         sendButton (resume (Loading FromSend) r x) = Some False"
  using assms loadMessages_resume_input [of r x]
  by (simp add: resume_def after_load_def sendMessage_finally_def focus_def Let_def)

text \<open>
  C6.  A send whose trimmed text is not empty and not too long, on a page with the input
  and the button.  The call disables both and puts the POST in flight.  When the POST
  fails (rejected, or not \<open>ok\<close>), the input keeps its text, both are enabled again, the
  input has the focus, one notice is raised and nothing more is sent.  When it succeeds,
  the input is cleared, both stay disabled and the refresh is sent; whatever the answer
  to the refresh, both are enabled again and the input has the focus.
\<close>

theorem send_disables_then_restores:
  assumes "messageInput s = Some i" and "sendButton s = Some c"
    and "trim (input_value i) \<noteq> []"
    and "length (trim (input_value i)) \<le> maxMessageLength (options s)"
  shows "(let s1 = sendMessage_call s
          in messageInput s1 = Some (i\<lparr>input_disabled := True, input_focused := False\<rparr>) \<and>
             sendButton s1 = Some True \<and>
             inflight s1 = inflight s @
               [(next_request s, POST_messages (offerId s) (trim (input_value i)), Sending)] \<and>
             (\<forall>r. (r = NetworkError \<or> (\<exists>b. r = Http False b)) \<longrightarrow>
                (let s2 = resume Sending r s1
                 in messageInput s2 = Some (i\<lparr>input_disabled := False, input_focused := True\<rparr>) \<and>
                    sendButton s2 = Some False \<and>
                    notices s2 = notices s @ [''Failed to send message. Please try again.''] \<and>
                    requests s2 = requests s1)) \<and>
             (\<forall>b. let s2 = resume Sending (Http True b) s1
                  in messageInput s2 =
                       Some (i\<lparr>input_value := [], input_disabled := True, input_focused := False\<rparr>) \<and>
                     sendButton s2 = Some True \<and>
                     requests s2 = requests s1 @ [GET_messages (offerId s)] \<and>
                     inflight s2 = inflight s1 @
                       [(next_request s1, GET_messages (offerId s), Loading FromSend)] \<and>
                     notices s2 = notices s \<and>
                     (\<forall>r. let s3 = resume (Loading FromSend) r s2
                          in messageInput s3 =
                               Some \<lparr>input_value = [], input_disabled = False,
                                     input_focused = True\<rparr> \<and>
                             sendButton s3 = Some False)))"
proof -
  define s1 where "s1 = sendMessage_call s"
  have s1: "s1 = fetch (POST_messages (offerId s) (trim (input_value i))) Sending
                   (s\<lparr>messageInput := Some (disable i), sendButton := Some True\<rparr>)"
    using assms by (simp add: s1_def sendMessage_call_def Let_def)
  have a: "messageInput s1 = Some (i\<lparr>input_disabled := True, input_focused := False\<rparr>)"
    "sendButton s1 = Some True"
    "inflight s1 = inflight s @
       [(next_request s, POST_messages (offerId s) (trim (input_value i)), Sending)]"
    "notices s1 = notices s" "offerId s1 = offerId s"
    by (simp_all add: s1 fetch_def disable_def)
  have fail: "messageInput (resume Sending r s1) =
                Some (i\<lparr>input_disabled := False, input_focused := True\<rparr>) \<and>
              sendButton (resume Sending r s1) = Some False \<and>
              notices (resume Sending r s1) =
                notices s @ [''Failed to send message. Please try again.''] \<and>
              requests (resume Sending r s1) = requests s1"
    if "r = NetworkError \<or> (\<exists>b. r = Http False b)" for r
    using that send_failed_effects [OF a(1) a(2)] a(4)
    by (auto simp: resume_def sendMessage_resume_def)
  have ok: "resume Sending (Http True b) s1 =
              loadMessages_call FromSend
                (s1\<lparr>messageInput :=
                    Some (i\<lparr>input_value := [], input_disabled := True, input_focused := False\<rparr>)\<rparr>)"
    for b
    using a(1) by (cases i) (simp add: resume_def sendMessage_resume_def)
  have ok1: "messageInput (resume Sending (Http True b) s1) =
               Some (i\<lparr>input_value := [], input_disabled := True, input_focused := False\<rparr>)"
    "sendButton (resume Sending (Http True b) s1) = Some True"
    "requests (resume Sending (Http True b) s1) = requests s1 @ [GET_messages (offerId s)]"
    "inflight (resume Sending (Http True b) s1) =
       inflight s1 @ [(next_request s1, GET_messages (offerId s), Loading FromSend)]"
    "notices (resume Sending (Http True b) s1) = notices s" for b
    using a by (simp_all add: ok loadMessages_call_def fetch_def)
  have ok2: "messageInput (resume (Loading FromSend) r (resume Sending (Http True b) s1)) =
               Some \<lparr>input_value = [], input_disabled = False, input_focused = True\<rparr> \<and>
             sendButton (resume (Loading FromSend) r (resume Sending (Http True b) s1)) = Some False"
    for r b
    using refresh_after_send [OF ok1(1) ok1(2), of r b] by simp
  show ?thesis
    unfolding Let_def s1_def [symmetric]
  proof (intro conjI allI impI)
    fix r assume r: "r = NetworkError \<or> (\<exists>b. r = Http False b)"
    from fail [OF r] show
      "messageInput (resume Sending r s1) =
         Some (i\<lparr>input_disabled := False, input_focused := True\<rparr>)"
      "sendButton (resume Sending r s1) = Some False"
      "notices (resume Sending r s1) =
         notices s @ [''Failed to send message. Please try again.'']"
      "requests (resume Sending r s1) = requests s1"
      by simp_all
  qed (simp_all only: a ok1 ok2)
qed


theorem send_disables_then_restores_witness:
  "(let s = run [Open 7 (Some alice) None, Answer 0 (Http True (Messages [])), Edit '' hi '']
              widget;
        s1 = sendMessage_call s;
        s2 = resume Sending (Http True NotAnObject) s1
    in messageInput s1 =
         Some \<lparr>input_value = '' hi '', input_disabled = True, input_focused = False\<rparr> \<and>
       sendButton s1 = Some True \<and>
       messageInput (resume Sending NetworkError s1) =
         Some \<lparr>input_value = '' hi '', input_disabled = False, input_focused = True\<rparr> \<and>
       sendButton (resume Sending NetworkError s1) = Some False \<and>
       notices (resume Sending NetworkError s1) = [''Failed to send message. Please try again.''] \<and>
       messageInput s2 =
         Some \<lparr>input_value = [], input_disabled = True, input_focused = False\<rparr> \<and>
       requests s2 =
         [GET_messages (Some 7), POST_messages (Some 7) ''hi'', GET_messages (Some 7)] \<and>
       messageInput (resume (Loading FromSend) NetworkError s2) =
         Some \<lparr>input_value = [], input_disabled = False, input_focused = True\<rparr> \<and>
       sendButton (resume (Loading FromSend) NetworkError s2) = Some False)"
proof -
  define s where
    "s = run [Open 7 (Some alice) None, Answer 0 (Http True (Messages [])), Edit '' hi ''] widget"
  define i where
    "i = \<lparr>input_value = '' hi '', input_disabled = False, input_focused = True\<rparr>"
  define s1 where "s1 = sendMessage_call s"
  have p1: "messageInput s = Some i" and p2: "sendButton s = Some False"
    and m: "maxMessageLength (options s) = 1000" and n: "notices s = []"
    and o: "offerId s = Some 7" and rq: "requests s = [GET_messages (Some 7)]"
    unfolding s_def i_def by (simp_all add: eval_defs)
  have t: "trim (input_value i) = ''hi''"
    by (simp add: i_def trim_def is_whitespace_def)
  have p3: "trim (input_value i) \<noteq> []" and p4: "length (trim (input_value i)) \<le> maxMessageLength (options s)"
    by (simp_all add: t m)
  have rq1: "requests s1 = [GET_messages (Some 7), POST_messages (Some 7) ''hi'']"
    using p1 p2 t m rq o by (simp add: s1_def sendMessage_call_def fetch_def Let_def)
  note th = send_disables_then_restores [OF p1 p2 p3 p4, unfolded Let_def, folded s1_def]
  from th have a: "messageInput s1 = Some (i\<lparr>input_disabled := True, input_focused := False\<rparr>)"
    "sendButton s1 = Some True"
    by blast+
  from th have "NetworkError = NetworkError \<or> (\<exists>b. NetworkError = Http False b) \<longrightarrow>
      messageInput (resume Sending NetworkError s1) =
        Some (i\<lparr>input_disabled := False, input_focused := True\<rparr>) \<and>
      sendButton (resume Sending NetworkError s1) = Some False \<and>
      notices (resume Sending NetworkError s1) =
        notices s @ [''Failed to send message. Please try again.''] \<and>
      requests (resume Sending NetworkError s1) = requests s1"
    by blast
  then have b: "messageInput (resume Sending NetworkError s1) =
        Some (i\<lparr>input_disabled := False, input_focused := True\<rparr>)"
      "sendButton (resume Sending NetworkError s1) = Some False"
      "notices (resume Sending NetworkError s1) =
        notices s @ [''Failed to send message. Please try again.'']"
    by simp_all
  define s2 where "s2 = resume Sending (Http True NotAnObject) s1"
  from th have "messageInput (resume Sending (Http True NotAnObject) s1) =
        Some (i\<lparr>input_value := [], input_disabled := True, input_focused := False\<rparr>) \<and>
      sendButton (resume Sending (Http True NotAnObject) s1) = Some True \<and>
      requests (resume Sending (Http True NotAnObject) s1) = requests s1 @ [GET_messages (offerId s)] \<and>
      inflight (resume Sending (Http True NotAnObject) s1) =
        inflight s1 @ [(next_request s1, GET_messages (offerId s), Loading FromSend)] \<and>
      notices (resume Sending (Http True NotAnObject) s1) = notices s \<and>
      (\<forall>r. messageInput (resume (Loading FromSend) r (resume Sending (Http True NotAnObject) s1)) =
             Some \<lparr>input_value = [], input_disabled = False, input_focused = True\<rparr> \<and>
           sendButton (resume (Loading FromSend) r (resume Sending (Http True NotAnObject) s1)) =
             Some False)"
    by blast
  then have c: "messageInput s2 =
        Some (i\<lparr>input_value := [], input_disabled := True, input_focused := False\<rparr>)"
      "requests s2 = requests s1 @ [GET_messages (offerId s)]"
      "messageInput (resume (Loading FromSend) NetworkError s2) =
         Some \<lparr>input_value = [], input_disabled = False, input_focused = True\<rparr>"
      "sendButton (resume (Loading FromSend) NetworkError s2) = Some False"
    unfolding s2_def by blast+
  show ?thesis
    unfolding Let_def s_def [symmetric] s1_def [symmetric] s2_def [symmetric]
    using a b c by (simp add: i_def n o rq1)
qed

section \<open>Switching the conversation\<close>

text \<open>
  C2, as the claim states it, fails.  Offer 1 is open and polling, and a tick has put
  a request for offer 1 in flight.  \<open>open\<close> for offer 2 makes offer 2 the open one and
  leaves the timer of offer 1 running.  The answer to the request for offer 1 arrives
  then: its message becomes the collection and is rendered, under offer 2.
\<close>

theorem stale_answer_is_rendered:
  "(let s = run [Open 1 (Some alice) None, Answer 0 (Http True (Messages [])), Tick 1,
                Open 2 (Some alice) None] widget;
        s' = step (Answer 1 (Http True (Messages [old_message]))) s
    in offerId s = Some 2 \<and> timers s = [1] \<and>
       inflight s = [(1, GET_messages (Some 1), Loading FromTick),
                     (2, GET_messages (Some 2), Loading FromOpen)] \<and>
       offerId s' = Some 2 \<and> messages s' = [old_message] \<and>
       messagesContainer s' =
         Some (message_markup ''chat-message-received'' ''Bob'' ''Just now'' ''About offer 1''))"
  by (simp add: eval_defs old_message_def renderMessage_def formatTime_def escapeHtml_def
        escape_char_def)


lemma after_load_view:
  "messages (after_load c x) = messages x \<and> offerId (after_load c x) = offerId x \<and>
   messagesContainer (after_load c x) = messagesContainer x"
  by (cases c)
     (auto simp: after_load_def open_resume_def startPolling_def stopPolling_def
        sendMessage_finally_def throw_def Let_def split: option.splits)

lemma loaded_messages_replace:
  assumes "currentUser x = Some usr"
  shows "messages (loadMessages_resume (Http True (Messages ms)) x) = ms \<and>
         offerId (loadMessages_resume (Http True (Messages ms)) x) = offerId x \<and>
         messagesContainer (loadMessages_resume (Http True (Messages ms)) x) =
           map_option
             (\<lambda>_. if ms = [] then empty_markup
                  else concat (map (renderMessage (localeDate x) (clock x) usr) ms))
             (messagesContainer x)"
  using assms
  by (auto simp: loadMessages_resume_def renderMessages_def Let_def split: option.splits)

text \<open>
  C2, amended.  On a widget whose modal exists, in any state it can reach, \<open>open\<close> for
  another offer makes that offer the open one at once and sends the request for its
  messages; from then on a tick of the timer that is still running asks for the new
  offer.  The timer of the previous offer runs on until the first load has returned:
  the rest of \<open>open\<close> then stops it and starts a new one, and exactly the new one is
  left.  An answer with messages to any request still in flight, whatever offer the
  request was sent for, replaces the collection and is rendered under the new offer.
\<close>

theorem switch_conversation:
  assumes "modal s \<noteq> None" and "timer_tracked s"
  shows "(let s1 = open_call new (Some usr) title s
          in offerId s1 = Some new \<and>
             timers s1 = timers s \<and> pollingInterval s1 = pollingInterval s \<and>
             requests s1 = requests s @ [GET_messages (Some new)] \<and>
             (\<forall>h \<in> set (timers s1).
                requests (step (Tick h) s1) = requests s1 @ [GET_messages (Some new)]) \<and>
             (\<forall>r. let s2 = resume (Loading FromOpen) r s1
                  in timers s2 = [next_timer s] \<and> pollingInterval s2 = Some (next_timer s) \<and>
                     (\<forall>h \<in> set (timers s). h \<notin> set (timers s2))) \<and>
             (\<forall>n old c ms.
                map_of (inflight s1) n = Some (GET_messages old, Loading c) \<longrightarrow>
                (let s2 = step (Answer n (Http True (Messages ms))) s1
                 in offerId s2 = Some new \<and> messages s2 = ms \<and>
                    messagesContainer s2 =
                      map_option
                        (\<lambda>_. if ms = [] then empty_markup
                             else concat (map (renderMessage (localeDate s) (clock s) usr) ms))
                        (messagesContainer s))))"
proof -
  define s1 where "s1 = open_call new (Some usr) title s"
  have a: "offerId s1 = Some new" "timers s1 = timers s" "pollingInterval s1 = pollingInterval s"
    "requests s1 = requests s @ [GET_messages (Some new)]" "next_timer s1 = next_timer s"
    "currentUser s1 = Some usr" "messagesContainer s1 = messagesContainer s"
    "localeDate s1 = localeDate s" "clock s1 = clock s"
    using assms(1)
    by (auto simp: s1_def open_call_def loadMessages_call_def fetch_def Let_def
          split: option.splits)
  have b: "requests (step (Tick h) s1) = requests s1 @ [GET_messages (Some new)]"
    if "h \<in> set (timers s1)" for h
    using that a(1) by (simp add: step_def loadMessages_call_def fetch_def)
  have t1: "timer_tracked s1"
    unfolding s1_def by (rule open_call_tracked [OF assms(2)])
  have old: "h < next_timer s" if "h \<in> set (timers s)" for h
    using that assms(2) by (auto simp: timer_tracked_def split: option.splits)
  have c: "timers (resume (Loading FromOpen) r s1) = [next_timer s] \<and>
           pollingInterval (resume (Loading FromOpen) r s1) = Some (next_timer s) \<and>
           (\<forall>h \<in> set (timers s). h \<notin> set (timers (resume (Loading FromOpen) r s1)))" for r
  proof -
    define x where "x = loadMessages_resume r s1"
    have sx: "same_timers s1 x" unfolding x_def by (rule loadMessages_resume_timers)
    have tx: "timer_tracked x" using sx t1 by (rule tracked_same)
    have nx: "next_timer x = next_timer s" using sx a(5) by (simp add: same_timers_def)
    have r: "resume (Loading FromOpen) r s1 = open_resume x"
      by (simp add: resume_def after_load_def x_def)
    have "timers (open_resume x) = [next_timer s] \<and>
          pollingInterval (open_resume x) = Some (next_timer s)"
      using startPolling_fresh [OF tx] nx
      by (auto simp: open_resume_def Let_def split: option.splits)
    then show ?thesis using old unfolding r by auto
  qed
  have d: "offerId (step (Answer n (Http True (Messages ms))) s1) = Some new \<and>
           messages (step (Answer n (Http True (Messages ms))) s1) = ms \<and>
           messagesContainer (step (Answer n (Http True (Messages ms))) s1) =
             map_option
               (\<lambda>_. if ms = [] then empty_markup
                    else concat (map (renderMessage (localeDate s) (clock s) usr) ms))
               (messagesContainer s)"
    if "map_of (inflight s1) n = Some (GET_messages old, Loading c)" for n old c ms
  proof -
    define x where "x = s1\<lparr>inflight := filter (\<lambda>p. fst p \<noteq> n) (inflight s1)\<rparr>"
    have st: "step (Answer n (Http True (Messages ms))) s1 =
                after_load c (loadMessages_resume (Http True (Messages ms)) x)"
      using that by (simp add: step_def resume_def x_def)
    have cx: "currentUser x = Some usr" using a(6) by (simp add: x_def)
    have fx: "offerId x = Some new" "messagesContainer x = messagesContainer s"
      "localeDate x = localeDate s" "clock x = clock s"
      using a by (simp_all add: x_def)
    show ?thesis
      unfolding st using after_load_view [of c "loadMessages_resume (Http True (Messages ms)) x"]
        loaded_messages_replace [OF cx, of ms] fx
      by simp
  qed
  show ?thesis
    unfolding Let_def s1_def [symmetric]
    using a(1-4) b c d by blast
qed


theorem switch_conversation_witness:
  "(let s = run [Open 1 (Some alice) None, Answer 0 (Http True (Messages [])), Tick 1] widget;
        s1 = open_call 2 (Some alice) None s
    in modal s = Some ''flex'' \<and> offerId s = Some 1 \<and> timers s = [1] \<and>
       offerId s1 = Some 2 \<and> timers s1 = [1] \<and>
       requests (step (Tick 1) s1) =
         [GET_messages (Some 1), GET_messages (Some 1), GET_messages (Some 2),
          GET_messages (Some 2)] \<and>
       timers (resume (Loading FromOpen) NetworkError s1) = [2] \<and>
       map_of (inflight s1) 1 = Some (GET_messages (Some 1), Loading FromTick) \<and>
       offerId (step (Answer 1 (Http True (Messages [old_message]))) s1) = Some 2 \<and>
       messages (step (Answer 1 (Http True (Messages [old_message]))) s1) = [old_message])"
proof -
  define s where
    "s = run [Open 1 (Some alice) None, Answer 0 (Http True (Messages [])), Tick 1] widget"
  define s1 where "s1 = open_call 2 (Some alice) None s"
  have m: "modal s = Some ''flex''" and o: "offerId s = Some 1" and ti: "timers s = [1]"
    and nt: "next_timer s = 2"
    and rq: "requests s = [GET_messages (Some 1), GET_messages (Some 1)]"
    unfolding s_def by (simp_all add: eval_defs)
  have inf: "map_of (inflight s1) 1 = Some (GET_messages (Some 1), Loading FromTick)"
    unfolding s1_def s_def by (simp add: eval_defs)
  have t: "timer_tracked s"
    unfolding s_def widget_def by (rule reachable_tracked)
  have n: "modal s \<noteq> None" using m by simp
  note th = switch_conversation [OF n t, of 2 alice None, unfolded Let_def, folded s1_def]
  from th have a: "offerId s1 = Some 2" "timers s1 = timers s"
    "requests s1 = requests s @ [GET_messages (Some 2)]"
    by blast+
  from th have "\<forall>h \<in> set (timers s1).
      requests (step (Tick h) s1) = requests s1 @ [GET_messages (Some 2)]"
    by blast
  moreover have "1 \<in> set (timers s1)" using a ti by simp
  ultimately have b: "requests (step (Tick 1) s1) = requests s1 @ [GET_messages (Some 2)]"
    by (rule bspec)
  from th have "\<forall>r. timers (resume (Loading FromOpen) r s1) = [next_timer s] \<and>
      pollingInterval (resume (Loading FromOpen) r s1) = Some (next_timer s) \<and>
      (\<forall>h \<in> set (timers s). h \<notin> set (timers (resume (Loading FromOpen) r s1)))"
    by blast
  then have c: "timers (resume (Loading FromOpen) NetworkError s1) = [next_timer s]"
    by blast
  from th inf have d: "offerId (step (Answer 1 (Http True (Messages [old_message]))) s1) = Some 2 \<and>
      messages (step (Answer 1 (Http True (Messages [old_message]))) s1) = [old_message]"
    by blast
  show ?thesis
    unfolding Let_def s_def [symmetric] s1_def [symmetric]
    using m o ti a b c d inf by (simp add: rq nt)
qed

end
